theory Spec2Isabelle
  imports Main "HOL-Library.Sublist"
begin

section \<open>Python values\<close>

text \<open>
  A Python \<^verbatim>\<open>str\<close> is a sequence of Unicode code points; a code point is a natural
  number. \<open>ascii\<close> embeds an ASCII literal; code points outside ASCII are written as
  numbers (U+26A0 U+FE0F is the warning sign, U+23F3 the hourglass, U+2014 the em dash).
\<close>

type_synonym str = "nat list"

definition ascii :: "string \<Rightarrow> str" where
  "ascii s = map of_char s"

text \<open>
  \<^verbatim>\<open>str.isspace\<close> on one code point, as CPython decides it: the ASCII white space and
  separators \<open>0x09..0x0D\<close>, \<open>0x1C..0x1F\<close>, \<open>0x20\<close>, and the Unicode white space
  \<open>0x85\<close>, \<open>0xA0\<close>, \<open>0x1680\<close>, \<open>0x2000..0x200A\<close>, \<open>0x2028\<close>, \<open>0x2029\<close>, \<open>0x202F\<close>,
  \<open>0x205F\<close>, \<open>0x3000\<close>.
\<close>

definition isspace :: "nat \<Rightarrow> bool" where
  "isspace c \<longleftrightarrow>
     (9 \<le> c \<and> c \<le> 13) \<or> (28 \<le> c \<and> c \<le> 32) \<or> c = 133 \<or> c = 160 \<or> c = 5760 \<or>
     (8192 \<le> c \<and> c \<le> 8202) \<or> c = 8232 \<or> c = 8233 \<or> c = 8239 \<or> c = 8287 \<or> c = 12288"

text \<open>\<^verbatim>\<open>s.strip()\<close>: leading and trailing white space removed.\<close>

definition strip :: "str \<Rightarrow> str" where
  "strip s = rev (dropWhile isspace (rev (dropWhile isspace s)))"

text \<open>\<^verbatim>\<open>"\n".join(ls)\<close>, used to lay a multi-line literal out line by line.\<close>

fun join_lines :: "str list \<Rightarrow> str" where
  "join_lines [] = []"
| "join_lines [l] = l"
| "join_lines (l # ls) = l @ 10 # join_lines ls"

text \<open>
  The exceptions the modelled code can raise. \<open>InferenceError\<close> stands for whatever the
  remote inference call raises (time-out, authentication, quota, malformed response),
  with its message.
\<close>

datatype exn =
    TypeError
  | FileNotFoundError
  | FileExistsError
  | IsADirectoryError
  | UnicodeDecodeError
  | UnicodeEncodeError
  | InferenceError str

section \<open>app/agents.py: configuration\<close>

text \<open>
  The module's opening block, run once at import. \<open>env\<close> is \<^verbatim>\<open>os.environ\<close> as it stands
  after \<^verbatim>\<open>load_dotenv(override=True)\<close>. \<^verbatim>\<open>os.getenv(k)\<close> is \<open>None\<close> for a variable that is
  not set, and storing \<open>None\<close> in \<^verbatim>\<open>os.environ\<close> raises \<open>TypeError\<close>.
\<close>

type_synonym environ = "str \<rightharpoonup> str"

record agents_module =
  os_environ :: environ
  MODEL :: str

definition getenv :: "environ \<Rightarrow> str \<Rightarrow> str \<Rightarrow> str" where
  "getenv env key dflt = (case env key of None \<Rightarrow> dflt | Some v \<Rightarrow> v)"

definition import_agents :: "environ \<Rightarrow> exn + agents_module" where
  "import_agents env =
     (case env (ascii ''OPENROUTER_API_KEY'') of
        None \<Rightarrow> Inl TypeError
      | Some key \<Rightarrow>
          (let env1 = env(ascii ''OPENAI_API_KEY'' \<mapsto> key);
               env2 = env1(ascii ''OPENAI_BASE_URL'' \<mapsto> ascii ''https://openrouter.ai/api/v1'')
           in Inr \<lparr>os_environ = env2,
                   MODEL = getenv env2 (ascii ''MODEL'') (ascii ''openai/gpt-4o-mini'')\<rparr>))"

section \<open>app/agents.py: the three agents\<close>

record Agent =
  name :: str
  instructions :: str
  model :: str

definition code_analyst_instructions :: str where
  "code_analyst_instructions = join_lines
    [[],
     ascii ''    You are an expert code analyst specialising in Python and JavaScript.'',
     ascii ''    Your job is to read code and produce a thorough, structured analysis.'',
     [],
     ascii ''    For EVERY function, method, and class in the code, identify and report:'',
     [],
     ascii ''    1. Name and purpose '' @ [8212] @ ascii '' what it does in plain English (1-2 sentences)'',
     ascii ''    2. Parameters '' @ [8212] @ ascii '' each parameter's name, type, and what it represents'',
     ascii ''    3. Return value '' @ [8212] @ ascii '' the type and what it contains'',
     ascii ''    4. Raises / throws '' @ [8212] @ ascii '' any exceptions or errors it can produce'',
     ascii ''    5. Edge cases '' @ [8212] @ ascii '' inputs or conditions that could cause unexpected behaviour'',
     ascii ''    6. Dependencies '' @ [8212] @ ascii '' which other functions or methods it calls'',
     ascii ''    7. Notable design decisions '' @ [8212] @ ascii '' anything worth flagging for documentation'',
     [],
     ascii ''    Also identify at the top level:'',
     ascii ''    - What problem this codebase solves overall'',
     ascii ''    - Any imported libraries or modules and what they are used for'',
     ascii ''    - Any global variables or constants and their purpose'',
     [],
     ascii ''    Format your output with clear headings and bullet points.'',
     ascii ''    Be precise, technical, and complete.'',
     ascii ''    Do not add filler or padding.'',
     ascii ''    Your output goes directly to a documentation writer agent '' @ [8212],
     ascii ''    completeness and accuracy are critical.'',
     ascii ''    '']"

definition doc_writer_instructions :: str where
  "doc_writer_instructions = join_lines
    [[],
     ascii ''    You are a professional technical documentation writer.'',
     ascii ''    You will receive a structured analysis of Python or JavaScript code,'',
     ascii ''    along with the original code for reference.'',
     [],
     ascii ''    Produce complete, professional documentation in Markdown format.'',
     ascii ''    Your output must contain exactly these sections:'',
     [],
     ascii ''    ## Overview'',
     ascii ''    2-3 sentences. What this code does and what problem it solves.'',
     ascii ''    Written for a developer who has never seen this codebase before.'',
     [],
     ascii ''    ## Installation & Dependencies'',
     ascii ''    List any libraries or modules imported. Note if they need installing.'',
     [],
     ascii ''    ## API Reference'',
     ascii ''    For every function, method, and class:'',
     ascii ''    ### FunctionName / ClassName'',
     ascii ''    One-line description.'',
     ascii ''    **Parameters:**'',
     ascii ''    | Name | Type | Description |'',
     ascii ''    |------|------|-------------|'',
     ascii ''    | param | type | what it does |'',
     ascii ''    **Returns:** type '' @ [8212] @ ascii '' description'',
     ascii ''    **Raises:** ExceptionType '' @ [8212] @ ascii '' when it is raised (omit section if none)'',
     [],
     ascii ''    ## Usage Examples'',
     ascii ''    At least 2 complete, realistic, copy-pasteable code examples.'',
     ascii ''    Show the most common use cases. Include expected output as comments.'',
     [],
     ascii ''    ## Edge Cases & Gotchas'',
     ascii ''    Bullet list of important limitations, non-obvious behaviours,'',
     ascii ''    or things that could trip up a developer using this code.'',
     [],
     ascii ''    Write for a developer audience. Be precise and professional.'',
     ascii ''    Use proper Markdown throughout. Do not add extra commentary'',
     ascii ''    outside these sections.'',
     ascii ''    '']"

definition quality_reviewer_instructions :: str where
  "quality_reviewer_instructions = join_lines
    [[],
     ascii ''    You are a senior technical documentation reviewer.'',
     ascii ''    You will receive generated documentation AND the original code it describes.'',
     [],
     ascii ''    Your job is to:'',
     [],
     ascii ''    1. VERIFY accuracy '' @ [8212] @ ascii '' check every parameter name, type, return value,'',
     ascii ''       and description against the actual code. Correct any errors.'',
     [],
     ascii ''    2. CHECK completeness '' @ [8212] @ ascii '' confirm every function, method, and class'',
     ascii ''       in the code is documented. Add anything missing.'',
     [],
     ascii ''    3. IMPROVE clarity '' @ [8212] @ ascii '' rewrite any explanations that are vague,'',
     ascii ''       confusing, or too technical without explanation.'',
     [],
     ascii ''    4. VALIDATE examples '' @ [8212] @ ascii '' check that the usage examples are correct'',
     ascii ''       and would actually run without errors.'',
     [],
     ascii ''    5. POLISH language '' @ [8212] @ ascii '' fix grammar, improve sentence flow, ensure'',
     ascii ''       consistent tone throughout.'',
     [],
     ascii ''    Return the complete, corrected documentation in full Markdown.'',
     ascii ''    Do not add commentary about what you changed '' @ [8212] @ ascii '' just return the'',
     ascii ''    final, polished documentation and nothing else.'',
     ascii ''    '']"

definition code_analyst :: "str \<Rightarrow> Agent" where
  "code_analyst MODEL' =
     \<lparr>name = ascii ''Code Analyst'',
      instructions = code_analyst_instructions,
      model = MODEL'\<rparr>"

definition doc_writer :: "str \<Rightarrow> Agent" where
  "doc_writer MODEL' =
     \<lparr>name = ascii ''Documentation Writer'',
      instructions = doc_writer_instructions,
      model = MODEL'\<rparr>"

definition quality_reviewer :: "str \<Rightarrow> Agent" where
  "quality_reviewer MODEL' =
     \<lparr>name = ascii ''Quality Reviewer'',
      instructions = quality_reviewer_instructions,
      model = MODEL'\<rparr>"

section \<open>Effects: remote calls, yielded values, failures\<close>

text \<open>
  \<^verbatim>\<open>Runner.run\<close> belongs to the Agents SDK, and the service behind it answers as it
  likes: it is a parameter, a function of the agent, the prompt and the state \<open>'r\<close> of
  the remote side, giving the \<^verbatim>\<open>final_output\<close> text or the exception raised, and the
  remote side's next state.

  A coroutine or asynchronous generator run to its end is a function of the state that
  gives the events it caused, in order, its outcome (\<open>Inl\<close> an exception that left it,
  \<open>Inr\<close> its return value) and the state it leaves. An event is a remote call, recorded
  with its agent, its prompt and its answer, or a value yielded to the consumer.
\<close>

type_synonym 'r runner = "Agent \<Rightarrow> str \<Rightarrow> 'r \<Rightarrow> (exn + str) \<times> 'r"

datatype 'y event = Call Agent str "exn + str" | Yield 'y

type_synonym ('y, 'a, 's) task = "'s \<Rightarrow> 'y event list \<times> (exn + 'a) \<times> 's"

definition return_task :: "'a \<Rightarrow> ('y, 'a, 's) task" where
  "return_task a s = ([], Inr a, s)"

text \<open>Sequencing: an exception of the first part ends the whole, and nothing later runs.\<close>

definition bind_task :: "('y, 'a, 's) task \<Rightarrow> ('a \<Rightarrow> ('y, 'b, 's) task) \<Rightarrow> ('y, 'b, 's) task" where
  "bind_task m k s =
     (case m s of
        (es, Inl e, s') \<Rightarrow> (es, Inl e, s')
      | (es, Inr a, s') \<Rightarrow> (case k a s' of (es', res, s'') \<Rightarrow> (es @ es', res, s'')))"

definition yield :: "'y \<Rightarrow> ('y, unit, 's) task" where
  "yield y s = ([Yield y], Inr (), s)"

text \<open>\<^verbatim>\<open>(await Runner.run(agent, prompt)).final_output\<close>\<close>

definition await_run :: "'r runner \<Rightarrow> Agent \<Rightarrow> str \<Rightarrow> ('y, str, 'r) task" where
  "await_run Runner_run agent prompt r =
     (case Runner_run agent prompt r of (res, r') \<Rightarrow> ([Call agent prompt res], res, r'))"

primrec calls_of :: "'y event list \<Rightarrow> (Agent \<times> str \<times> (exn + str)) list" where
  "calls_of [] = []"
| "calls_of (ev # es) = (case ev of Call a p res \<Rightarrow> (a, p, res) # calls_of es | Yield _ \<Rightarrow> calls_of es)"

primrec yields_of :: "'y event list \<Rightarrow> 'y list" where
  "yields_of [] = []"
| "yields_of (ev # es) = (case ev of Call _ _ _ \<Rightarrow> yields_of es | Yield y \<Rightarrow> y # yields_of es)"

section \<open>app/agents.py: the pipeline\<close>

text \<open>
  \<open>upper\<close> is \<^verbatim>\<open>str.upper\<close>, Python's Unicode upper-casing, taken as a parameter.
  An f-string is the concatenation of its pieces; a line break inside a triple-quoted
  literal is the code point 10. \<open>run_pipeline\<close> is a coroutine, not a generator: it
  yields nothing, and its events are remote calls only.
\<close>

definition run_pipeline ::
  "str \<Rightarrow> (str \<Rightarrow> str) \<Rightarrow> 'r runner \<Rightarrow> str \<Rightarrow> str \<Rightarrow> (unit, str, 'r) task" where
  "run_pipeline MODEL' upper Runner_run code language =
     (if strip code = [] then
        return_task ([9888, 65039] @ ascii '' No code was provided. Please paste or upload a file.'')
      else
        bind_task (await_run Runner_run (code_analyst MODEL')
          (ascii ''Analyse this '' @ language @ ascii '' code thoroughly:\<newline>'' @
           ascii ''\<newline>'' @
           code)) (\<lambda>analysis.
        bind_task (await_run Runner_run (doc_writer MODEL')
          (ascii ''Write complete professional documentation using this analysis:\<newline>'' @
           ascii ''\<newline>'' @
           ascii ''--- ANALYSIS ---\<newline>'' @
           analysis @ ascii ''\<newline>'' @
           ascii ''\<newline>'' @
           ascii ''--- ORIGINAL '' @ upper language @ ascii '' CODE (for reference) ---\<newline>'' @
           code)) (\<lambda>draft_docs.
        bind_task (await_run Runner_run (quality_reviewer MODEL')
          (ascii ''Review and polish this documentation against the original code.\<newline>'' @
           ascii ''\<newline>'' @
           ascii ''--- DOCUMENTATION TO REVIEW ---\<newline>'' @
           draft_docs @ ascii ''\<newline>'' @
           ascii ''\<newline>'' @
           ascii ''--- ORIGINAL '' @ upper language @ ascii '' CODE ---\<newline>'' @
           code)) (\<lambda>final_output.
        return_task final_output))))"

definition stream_pipeline ::
  "str \<Rightarrow> (str \<Rightarrow> str) \<Rightarrow> 'r runner \<Rightarrow> str \<Rightarrow> str \<Rightarrow> (str, unit, 'r) task" where
  "stream_pipeline MODEL' upper Runner_run code language =
     (if strip code = [] then
        yield ([9888, 65039] @ ascii '' No code was provided. Please paste or upload a file.'')
      else
        bind_task (yield ([9203] @ ascii '' Step 1 of 3 '' @ [8212] @
                          ascii '' Code Analyst is reading your code...'')) (\<lambda>_.
        bind_task (await_run Runner_run (code_analyst MODEL')
          (ascii ''Analyse this '' @ language @ ascii '' code thoroughly:\<newline>\<newline>'' @ code))
          (\<lambda>analysis.
        bind_task (yield ([9203] @ ascii '' Step 2 of 3 '' @ [8212] @
                          ascii '' Documentation Writer is drafting the docs...'')) (\<lambda>_.
        bind_task (await_run Runner_run (doc_writer MODEL')
          (ascii ''Write complete professional documentation using this analysis:\<newline>'' @
           ascii ''\<newline>'' @
           ascii ''--- ANALYSIS ---\<newline>'' @
           analysis @ ascii ''\<newline>'' @
           ascii ''\<newline>'' @
           ascii ''--- ORIGINAL '' @ upper language @ ascii '' CODE (for reference) ---\<newline>'' @
           code)) (\<lambda>draft_docs.
        bind_task (yield ([9203] @ ascii '' Step 3 of 3 '' @ [8212] @
                          ascii '' Quality Reviewer is checking and polishing...'')) (\<lambda>_.
        bind_task (await_run Runner_run (quality_reviewer MODEL')
          (ascii ''Review and polish this documentation against the original code.\<newline>'' @
           ascii ''\<newline>'' @
           ascii ''--- DOCUMENTATION TO REVIEW ---\<newline>'' @
           draft_docs @ ascii ''\<newline>'' @
           ascii ''\<newline>'' @
           ascii ''--- ORIGINAL '' @ upper language @ ascii '' CODE ---\<newline>'' @
           code)) (\<lambda>final_output.
        yield final_output)))))))"

section \<open>app.py: saving the document\<close>

text \<open>
  The world \<^verbatim>\<open>app.py\<close> runs in: the remote side, the file system (the directories
  and the files with their content, by POSIX path as the program writes it) and the
  wall clock as \<^verbatim>\<open>datetime.now()\<close> reads it when the document is saved.
  A file opened in text mode with \<^verbatim>\<open>encoding="utf-8"\<close> is modelled by the text its bytes
  encode; \<open>Undecodable\<close> is a file whose bytes are not valid UTF-8.
  The functions of \<^verbatim>\<open>app.py\<close> are tasks over this world; those that \<open>generate\<close> calls
  have its type of events, pairs of a text and a download path or \<open>None\<close>.
\<close>

record datetime =
  year :: nat
  month :: nat
  day :: nat
  hour :: nat
  minute :: nat
  second :: nat

datatype file_data = Text str | Undecodable

record 'r world =
  remote :: 'r
  dirs :: "str set"
  files :: "str \<rightharpoonup> file_data"
  clock :: datetime

text \<open>The ranges Python's \<^verbatim>\<open>datetime\<close> keeps its fields in.\<close>

definition valid_datetime :: "datetime \<Rightarrow> bool" where
  "valid_datetime t \<longleftrightarrow>
     1 \<le> year t \<and> year t \<le> 9999 \<and> 1 \<le> month t \<and> month t \<le> 12 \<and> 1 \<le> day t \<and> day t \<le> 31 \<and>
     hour t < 24 \<and> minute t < 60 \<and> second t < 60"

fun decimal :: "nat \<Rightarrow> str" where
  "decimal n = (if n < 10 then [48 + n] else decimal (n div 10) @ [48 + n mod 10])"

definition zfill :: "nat \<Rightarrow> str \<Rightarrow> str" where
  "zfill width s = replicate (width - length s) 48 @ s"

text \<open>
  \<^verbatim>\<open>t.strftime("%Y%m%d_%H%M%S")\<close>, as the C library formats it on Linux: \<^verbatim>\<open>%Y\<close> is the
  year in decimal with no padding, so a year below 1000 has fewer than four digits; the
  other fields are zero-padded to two digits.
\<close>

definition strftime_Ymd_HMS :: "datetime \<Rightarrow> str" where
  "strftime_Ymd_HMS t =
     decimal (year t) @ zfill 2 (decimal (month t)) @ zfill 2 (decimal (day t)) @
     ascii ''_'' @
     zfill 2 (decimal (hour t)) @ zfill 2 (decimal (minute t)) @ zfill 2 (decimal (second t))"

text \<open>
  The UTF-8 codec refuses the surrogate code points \<open>0xD800..0xDFFF\<close>, which a Python
  \<^verbatim>\<open>str\<close> can hold: \<^verbatim>\<open>f.write\<close> then raises, after \<^verbatim>\<open>open\<close> has created the file.
\<close>

definition utf8_encodable :: "str \<Rightarrow> bool" where
  "utf8_encodable s = list_all (\<lambda>c. c < 55296 \<or> 57343 < c) s"

text \<open>
  \<^verbatim>\<open>Path("temp").mkdir(exist_ok=True)\<close> raises when \<^verbatim>\<open>temp\<close> exists and is not a
  directory; \<^verbatim>\<open>open(filepath, "w")\<close> creates or truncates the file, and raises when the
  path is a directory. On POSIX nothing is translated on writing.
\<close>

definition save_documentation :: "str \<Rightarrow> (str \<times> str option, str, 'r world) task" where
  "save_documentation content w =
     (let temp_dir = ascii ''temp'' in
      if temp_dir \<notin> dirs w \<and> files w temp_dir \<noteq> None then ([], Inl FileExistsError, w)
      else
        (let w1 = w\<lparr>dirs := insert temp_dir (dirs w)\<rparr>;
             timestamp = strftime_Ymd_HMS (clock w1);
             filepath = temp_dir @ ascii ''/'' @ (ascii ''documentation_'' @ timestamp @ ascii ''.md'')
         in if filepath \<in> dirs w1 then ([], Inl IsADirectoryError, w1)
            else if \<not> utf8_encodable content then
              ([], Inl UnicodeEncodeError, w1\<lparr>files := (files w1)(filepath \<mapsto> Text [])\<rparr>)
            else
              ([], Inr filepath, w1\<lparr>files := (files w1)(filepath \<mapsto> Text content)\<rparr>)))"

section \<open>app.py: the generate handler\<close>

text \<open>
  Reading in text mode translates the line endings \<^verbatim>\<open>\r\n\<close> and \<^verbatim>\<open>\r\<close> to \<^verbatim>\<open>\n\<close>
  (universal newlines).
\<close>

fun universal_newlines :: "str \<Rightarrow> str" where
  "universal_newlines [] = []"
| "universal_newlines [c] = (if c = 13 then [10] else [c])"
| "universal_newlines (c # d # s) =
     (if c = 13 \<and> d = 10 then 10 # universal_newlines s
      else if c = 13 then 10 # universal_newlines (d # s)
      else c # universal_newlines (d # s))"

text \<open>\<^verbatim>\<open>with open(path, "r", encoding="utf-8") as f: code = f.read()\<close>\<close>

definition read_file :: "str \<Rightarrow> (str \<times> str option, str, 'r world) task" where
  "read_file path w =
     (if path \<in> dirs w then ([], Inl IsADirectoryError, w)
      else case files w path of
        None \<Rightarrow> ([], Inl FileNotFoundError, w)
      | Some Undecodable \<Rightarrow> ([], Inl UnicodeDecodeError, w)
      | Some (Text s) \<Rightarrow> ([], Inr (universal_newlines s), w))"

text \<open>A task of \<^verbatim>\<open>app/agents.py\<close> touches the remote side only.\<close>

definition on_remote :: "('y, 'a, 'r) task \<Rightarrow> ('y, 'a, 'r world) task" where
  "on_remote m w = (case m (remote w) of (es, res, r') \<Rightarrow> (es, res, w\<lparr>remote := r'\<rparr>))"

text \<open>
  The loop \<^verbatim>\<open>async for chunk in ...: final_output = chunk; yield (chunk, None)\<close> over the
  events of the generator it consumes: the generator's remote calls happen as they are,
  and each value it yields is stored and yielded on with no download path.
\<close>

fun relay :: "str \<Rightarrow> str event list \<Rightarrow> (str \<times> str option) event list \<times> str" where
  "relay final_output [] = ([], final_output)"
| "relay final_output (Call a p res # es) =
     (case relay final_output es of (out, fin) \<Rightarrow> (Call a p res # out, fin))"
| "relay final_output (Yield chunk # es) =
     (case relay chunk es of (out, fin) \<Rightarrow> (Yield (chunk, None) # out, fin))"

definition async_for :: "str \<Rightarrow> (str, unit, 's) task \<Rightarrow> (str \<times> str option, str, 's) task" where
  "async_for final_output gen s =
     (case gen s of (chunks, res, s') \<Rightarrow>
        (case relay final_output chunks of (out, fin) \<Rightarrow>
           (out, (case res of Inl e \<Rightarrow> Inl e | Inr _ \<Rightarrow> Inr fin), s')))"

text \<open>
  \<open>file_input\<close> is \<open>None\<close>, or \<open>Some\<close> of the uploaded file's path \<^verbatim>\<open>file_input.name\<close>.
  The handler's first statement chooses the code it works on.
\<close>

definition uploaded_or_pasted ::
  "str \<Rightarrow> str option \<Rightarrow> (str \<times> str option, str, 'r world) task" where
  "uploaded_or_pasted code_input file_input =
     (case file_input of
        Some file_name \<Rightarrow> read_file file_name
      | None \<Rightarrow> return_task code_input)"

definition generate ::
  "str \<Rightarrow> (str \<Rightarrow> str) \<Rightarrow> 'r runner \<Rightarrow> str \<Rightarrow> str option \<Rightarrow> str \<Rightarrow>
   (str \<times> str option, unit, 'r world) task" where
  "generate MODEL' upper Runner_run code_input file_input language =
     bind_task (uploaded_or_pasted code_input file_input) (\<lambda>code.
     if strip code = [] then
       yield ([9888, 65039] @ ascii '' Please paste code or upload a file first.'', None)
     else
       bind_task
         (async_for [] (on_remote (stream_pipeline MODEL' upper Runner_run code language)))
         (\<lambda>final_output.
       if strip final_output \<noteq> [] then
         bind_task (save_documentation final_output) (\<lambda>download_path.
         yield (final_output, Some download_path))
       else return_task ()))"

section \<open>Stand-ins for concrete runs\<close>

text \<open>
  \<open>upper_ascii\<close> is \<^verbatim>\<open>str.upper\<close> on ASCII text. \<open>scripted\<close> is a simulated inference
  service that answers the calls it receives from a script, one entry per call, and
  fails once the script is used up. \<open>pure_runner f\<close> is an inference call that is a
  function \<open>f\<close> of the agent and the prompt alone.
\<close>

definition upper_ascii :: "str \<Rightarrow> str" where
  "upper_ascii s = map (\<lambda>c. if 97 \<le> c \<and> c \<le> 122 then c - 32 else c) s"

fun scripted :: "(exn + str) list runner" where
  "scripted agent prompt [] = (Inl (InferenceError (ascii ''no answer'')), [])"
| "scripted agent prompt (answer # script) = (answer, script)"

definition pure_runner :: "(Agent \<Rightarrow> str \<Rightarrow> exn + str) \<Rightarrow> 'r runner" where
  "pure_runner f agent prompt r = (f agent prompt, r)"

section \<open>Notions the properties are stated with\<close>

text \<open>The three prompts, as functions of what is interpolated into them.\<close>

definition analyst_prompt :: "str \<Rightarrow> str \<Rightarrow> str" where
  "analyst_prompt language code =
     ascii ''Analyse this '' @ language @ ascii '' code thoroughly:\<newline>\<newline>'' @ code"

definition writer_prompt :: "(str \<Rightarrow> str) \<Rightarrow> str \<Rightarrow> str \<Rightarrow> str \<Rightarrow> str" where
  "writer_prompt upper analysis language code =
     ascii ''Write complete professional documentation using this analysis:\<newline>\<newline>--- ANALYSIS ---\<newline>'' @
     analysis @
     ascii ''\<newline>\<newline>--- ORIGINAL '' @ upper language @ ascii '' CODE (for reference) ---\<newline>'' @
     code"

definition reviewer_prompt :: "(str \<Rightarrow> str) \<Rightarrow> str \<Rightarrow> str \<Rightarrow> str \<Rightarrow> str" where
  "reviewer_prompt upper draft_docs language code =
     ascii ''Review and polish this documentation against the original code.\<newline>\<newline>--- DOCUMENTATION TO REVIEW ---\<newline>'' @
     draft_docs @
     ascii ''\<newline>\<newline>--- ORIGINAL '' @ upper language @ ascii '' CODE ---\<newline>'' @
     code"

text \<open>The fixed strings of the two entry points and of the handler.\<close>

definition no_code_warning :: str where
  "no_code_warning = [9888, 65039] @ ascii '' No code was provided. Please paste or upload a file.''"

definition step1 :: str where
  "step1 = [9203] @ ascii '' Step 1 of 3 '' @ [8212] @ ascii '' Code Analyst is reading your code...''"

definition step2 :: str where
  "step2 = [9203] @ ascii '' Step 2 of 3 '' @ [8212] @
           ascii '' Documentation Writer is drafting the docs...''"

definition step3 :: str where
  "step3 = [9203] @ ascii '' Step 3 of 3 '' @ [8212] @
           ascii '' Quality Reviewer is checking and polishing...''"

definition please_paste :: str where
  "please_paste = [9888, 65039] @ ascii '' Please paste code or upload a file first.''"

text \<open>
  A remote call embeds the code the driver received: its prompt ends with that very
  string, and the Writer's and the Reviewer's prompt is the template of its stage around
  it.
\<close>

definition embeds ::
  "str \<Rightarrow> (str \<Rightarrow> str) \<Rightarrow> str \<Rightarrow> str \<Rightarrow> Agent \<times> str \<times> (exn + str) \<Rightarrow> bool" where
  "embeds MODEL' upper language code c \<longleftrightarrow>
     (case c of (a, p, out) \<Rightarrow>
        suffix code p \<and>
        (a = doc_writer MODEL' \<longrightarrow> (\<exists>analysis. p = writer_prompt upper analysis language code)) \<and>
        (a = quality_reviewer MODEL' \<longrightarrow>
           (\<exists>draft_docs. p = reviewer_prompt upper draft_docs language code)))"

text \<open>The pattern \<^verbatim>\<open>YYYYMMDD_HHMMSS\<close>: eight digits, an underscore, six digits.\<close>

definition isdigit :: "nat \<Rightarrow> bool" where
  "isdigit c \<longleftrightarrow> 48 \<le> c \<and> c \<le> 57"

definition is_timestamp :: "str \<Rightarrow> bool" where
  "is_timestamp ts \<longleftrightarrow>
     length ts = 15 \<and> list_all isdigit (take 8 ts) \<and> ts ! 8 = 95 \<and> list_all isdigit (drop 9 ts)"

text \<open>Inputs for concrete runs.\<close>

definition default_model :: str where
  "default_model = ascii ''openai/gpt-4o-mini''"

definition add_py :: str where
  "add_py = ascii ''def add(a, b): return a + b''"

definition Python :: str where
  "Python = ascii ''Python''"

definition blank :: str where
  "blank = [32, 10, 9, 160]"

definition timeout_error :: exn where
  "timeout_error = InferenceError (ascii ''timed out'')"

definition three_answers :: "(exn + str) list" where
  "three_answers = [Inr (ascii ''analysis''), Inr (ascii ''# draft''), Inr (ascii ''# Docs'')]"

definition empty_disk :: "(exn + str) list \<Rightarrow> (exn + str) list world" where
  "empty_disk script =
     \<lparr>remote = script, dirs = {}, files = Map.empty,
      clock = \<lparr>year = 2026, month = 11, day = 3, hour = 23, minute = 47, second = 5\<rparr>\<rparr>"

definition local_endpoint_env :: environ where
  "local_endpoint_env =
     [ascii ''OPENROUTER_API_KEY'' \<mapsto> ascii ''sk-or-1'',
      ascii ''OPENAI_BASE_URL'' \<mapsto> ascii ''http://localhost:8000/v1'']"

definition second_call_fails :: "(exn + str) list" where
  "second_call_fails = [Inr (ascii ''analysis''), Inl timeout_error]"

definition blank_review :: "(exn + str) list" where
  "blank_review = [Inr (ascii ''analysis''), Inr (ascii ''# draft''), Inr blank]"



section \<open>Lemmas about the model\<close>

subsection \<open>Sequencing\<close>

lemma ascii_fuse:
  "ascii s @ ascii t = ascii (s @ t)"
  "ascii s @ ascii t @ r = ascii (s @ t) @ r"
  by (simp_all add: ascii_def)

lemma bind_task_await:
  "bind_task (await_run run a p) k r =
     (case run a p r of
        (Inl e, r') \<Rightarrow> ([Call a p (Inl e)], Inl e, r')
      | (Inr x, r') \<Rightarrow> (case k x r' of (es, res, r'') \<Rightarrow> (Call a p (Inr x) # es, res, r'')))"
  by (simp add: bind_task_def await_run_def split: prod.splits sum.splits)

lemma bind_task_yield:
  "bind_task (yield y) k s = (case k () s of (es, res, s') \<Rightarrow> (Yield y # es, res, s'))"
  by (simp add: bind_task_def yield_def split: prod.splits)

lemma bind_task_return: "bind_task (return_task a) k s = k a s"
  by (simp add: bind_task_def return_task_def split: prod.splits)

subsection \<open>The agents\<close>

lemma agents_distinct:
  "code_analyst M \<noteq> doc_writer M" "code_analyst M \<noteq> quality_reviewer M"
  "doc_writer M \<noteq> quality_reviewer M"
  by (simp_all add: code_analyst_def doc_writer_def quality_reviewer_def ascii_def)

subsection \<open>The two entry points, stage by stage\<close>

lemma run_pipeline_unfold:
  "strip code \<noteq> [] \<Longrightarrow>
   run_pipeline M upper run code language =
     bind_task (await_run run (code_analyst M) (analyst_prompt language code)) (\<lambda>analysis.
     bind_task (await_run run (doc_writer M) (writer_prompt upper analysis language code)) (\<lambda>draft_docs.
     bind_task (await_run run (quality_reviewer M) (reviewer_prompt upper draft_docs language code)) (\<lambda>final_output.
     return_task final_output)))"
  by (simp add: run_pipeline_def analyst_prompt_def writer_prompt_def reviewer_prompt_def ascii_fuse)

lemma stream_pipeline_unfold:
  "strip code \<noteq> [] \<Longrightarrow>
   stream_pipeline M upper run code language =
     bind_task (yield step1) (\<lambda>_.
     bind_task (await_run run (code_analyst M) (analyst_prompt language code)) (\<lambda>analysis.
     bind_task (yield step2) (\<lambda>_.
     bind_task (await_run run (doc_writer M) (writer_prompt upper analysis language code)) (\<lambda>draft_docs.
     bind_task (yield step3) (\<lambda>_.
     bind_task (await_run run (quality_reviewer M) (reviewer_prompt upper draft_docs language code)) (\<lambda>final_output.
     yield final_output))))))"
  by (simp add: stream_pipeline_def analyst_prompt_def writer_prompt_def reviewer_prompt_def
      step1_def step2_def step3_def ascii_fuse)

lemma run_pipeline_blank:
  "strip code = [] \<Longrightarrow> run_pipeline M upper run code language r = ([], Inr no_code_warning, r)"
  by (simp add: run_pipeline_def return_task_def no_code_warning_def)

lemma stream_pipeline_blank:
  "strip code = [] \<Longrightarrow>
   stream_pipeline M upper run code language r = ([Yield no_code_warning], Inr (), r)"
  by (simp add: stream_pipeline_def yield_def no_code_warning_def)

lemma run_pipeline_fail1:
  assumes "strip code \<noteq> []"
    and "run (code_analyst M) (analyst_prompt language code) r = (Inl e, r1)"
  shows "run_pipeline M upper run code language r =
           ([Call (code_analyst M) (analyst_prompt language code) (Inl e)], Inl e, r1)"
  using assms by (simp add: run_pipeline_unfold bind_task_await)

lemma run_pipeline_fail2:
  assumes "strip code \<noteq> []"
    and "run (code_analyst M) (analyst_prompt language code) r = (Inr analysis, r1)"
    and "run (doc_writer M) (writer_prompt upper analysis language code) r1 = (Inl e, r2)"
  shows "run_pipeline M upper run code language r =
           ([Call (code_analyst M) (analyst_prompt language code) (Inr analysis),
             Call (doc_writer M) (writer_prompt upper analysis language code) (Inl e)], Inl e, r2)"
  using assms by (simp add: run_pipeline_unfold bind_task_await)

lemma run_pipeline_stage3:
  assumes "strip code \<noteq> []"
    and "run (code_analyst M) (analyst_prompt language code) r = (Inr analysis, r1)"
    and "run (doc_writer M) (writer_prompt upper analysis language code) r1 = (Inr draft_docs, r2)"
    and "run (quality_reviewer M) (reviewer_prompt upper draft_docs language code) r2 = (res, r3)"
  shows "run_pipeline M upper run code language r =
           ([Call (code_analyst M) (analyst_prompt language code) (Inr analysis),
             Call (doc_writer M) (writer_prompt upper analysis language code) (Inr draft_docs),
             Call (quality_reviewer M) (reviewer_prompt upper draft_docs language code) res], res, r3)"
  using assms by (cases res) (simp_all add: run_pipeline_unfold bind_task_await return_task_def)

lemma stream_pipeline_fail1:
  assumes "strip code \<noteq> []"
    and "run (code_analyst M) (analyst_prompt language code) r = (Inl e, r1)"
  shows "stream_pipeline M upper run code language r =
           ([Yield step1, Call (code_analyst M) (analyst_prompt language code) (Inl e)], Inl e, r1)"
  using assms by (simp add: stream_pipeline_unfold bind_task_await bind_task_yield)

lemma stream_pipeline_fail2:
  assumes "strip code \<noteq> []"
    and "run (code_analyst M) (analyst_prompt language code) r = (Inr analysis, r1)"
    and "run (doc_writer M) (writer_prompt upper analysis language code) r1 = (Inl e, r2)"
  shows "stream_pipeline M upper run code language r =
           ([Yield step1, Call (code_analyst M) (analyst_prompt language code) (Inr analysis),
             Yield step2, Call (doc_writer M) (writer_prompt upper analysis language code) (Inl e)],
            Inl e, r2)"
  using assms by (simp add: stream_pipeline_unfold bind_task_await bind_task_yield)

lemma stream_pipeline_fail3:
  assumes "strip code \<noteq> []"
    and "run (code_analyst M) (analyst_prompt language code) r = (Inr analysis, r1)"
    and "run (doc_writer M) (writer_prompt upper analysis language code) r1 = (Inr draft_docs, r2)"
    and "run (quality_reviewer M) (reviewer_prompt upper draft_docs language code) r2 = (Inl e, r3)"
  shows "stream_pipeline M upper run code language r =
           ([Yield step1, Call (code_analyst M) (analyst_prompt language code) (Inr analysis),
             Yield step2, Call (doc_writer M) (writer_prompt upper analysis language code) (Inr draft_docs),
             Yield step3, Call (quality_reviewer M) (reviewer_prompt upper draft_docs language code) (Inl e)],
            Inl e, r3)"
  using assms by (simp add: stream_pipeline_unfold bind_task_await bind_task_yield)

lemma stream_pipeline_done:
  assumes "strip code \<noteq> []"
    and "run (code_analyst M) (analyst_prompt language code) r = (Inr analysis, r1)"
    and "run (doc_writer M) (writer_prompt upper analysis language code) r1 = (Inr draft_docs, r2)"
    and "run (quality_reviewer M) (reviewer_prompt upper draft_docs language code) r2 = (Inr final_output, r3)"
  shows "stream_pipeline M upper run code language r =
           ([Yield step1, Call (code_analyst M) (analyst_prompt language code) (Inr analysis),
             Yield step2, Call (doc_writer M) (writer_prompt upper analysis language code) (Inr draft_docs),
             Yield step3, Call (quality_reviewer M) (reviewer_prompt upper draft_docs language code) (Inr final_output),
             Yield final_output],
            Inr (), r3)"
  using assms by (simp add: stream_pipeline_unfold bind_task_await bind_task_yield yield_def)

text \<open>The ways a run on non-blank code can go, by the answers the remote side gives.\<close>

lemma remote_cases [case_names fail1 fail2 fail3 succeed]:
  fixes run :: "'r runner"
  obtains
    (fail1) e r1 where
      "run (code_analyst M) (analyst_prompt language code) r = (Inl e, r1)"
  | (fail2) analysis r1 e r2 where
      "run (code_analyst M) (analyst_prompt language code) r = (Inr analysis, r1)"
      "run (doc_writer M) (writer_prompt upper analysis language code) r1 = (Inl e, r2)"
  | (fail3) analysis r1 draft_docs r2 e r3 where
      "run (code_analyst M) (analyst_prompt language code) r = (Inr analysis, r1)"
      "run (doc_writer M) (writer_prompt upper analysis language code) r1 = (Inr draft_docs, r2)"
      "run (quality_reviewer M) (reviewer_prompt upper draft_docs language code) r2 = (Inl e, r3)"
  | (succeed) analysis r1 draft_docs r2 final_output r3 where
      "run (code_analyst M) (analyst_prompt language code) r = (Inr analysis, r1)"
      "run (doc_writer M) (writer_prompt upper analysis language code) r1 = (Inr draft_docs, r2)"
      "run (quality_reviewer M) (reviewer_prompt upper draft_docs language code) r2 = (Inr final_output, r3)"
proof -
  obtain res1 r1 where 1: "run (code_analyst M) (analyst_prompt language code) r = (res1, r1)"
    by (cases "run (code_analyst M) (analyst_prompt language code) r")
  show thesis
  proof (cases res1)
    case (Inl e)
    with 1 show thesis by (auto intro: fail1)
  next
    case (Inr analysis)
    obtain res2 r2 where
      2: "run (doc_writer M) (writer_prompt upper analysis language code) r1 = (res2, r2)"
      by (cases "run (doc_writer M) (writer_prompt upper analysis language code) r1")
    show thesis
    proof (cases res2)
      case (Inl e)
      with 1 2 Inr show thesis by (auto intro: fail2)
    next
      case draft: (Inr draft_docs)
      obtain res3 r3 where
        3: "run (quality_reviewer M) (reviewer_prompt upper draft_docs language code) r2 = (res3, r3)"
        by (cases "run (quality_reviewer M) (reviewer_prompt upper draft_docs language code) r2")
      show thesis
      proof (cases res3)
        case (Inl e)
        with 1 2 3 Inr draft show thesis by (auto intro: fail3)
      next
        case fin: (Inr final_output)
        with 1 2 3 Inr draft show thesis by (auto intro: succeed)
      qed
    qed
  qed
qed

subsection \<open>Concrete runs\<close>

lemma add_py_not_blank: "strip add_py \<noteq> []"
  by (simp add: add_py_def strip_def isspace_def ascii_def)

lemma blank_is_blank: "strip blank = []"
  by (simp add: blank_def strip_def isspace_def)

lemma sublist_writer_prompt: "sublist analysis (writer_prompt upper analysis language code)"
  unfolding writer_prompt_def by (rule sublist_appendI)

lemma sublist_reviewer_prompt: "sublist draft_docs (reviewer_prompt upper draft_docs language code)"
  unfolding reviewer_prompt_def by (rule sublist_appendI)

lemma suffix_writer_prompt: "suffix code (writer_prompt upper analysis language code)"
  unfolding writer_prompt_def by (simp add: suffix_def)

lemma suffix_reviewer_prompt: "suffix code (reviewer_prompt upper draft_docs language code)"
  unfolding reviewer_prompt_def by (simp add: suffix_def)

lemma scripted_three_answers:
  "scripted a p three_answers = (Inr (ascii ''analysis''), [Inr (ascii ''# draft''), Inr (ascii ''# Docs'')])"
  "scripted a' p' [Inr (ascii ''# draft''), Inr (ascii ''# Docs'')] = (Inr (ascii ''# draft''), [Inr (ascii ''# Docs'')])"
  "scripted a'' p'' [Inr (ascii ''# Docs'')] = (Inr (ascii ''# Docs''), [])"
  by (simp_all add: three_answers_def)

lemma pipelines_agree:
  "calls_of (fst (stream_pipeline M upper run code language r)) =
     calls_of (fst (run_pipeline M upper run code language r)) \<and>
   fst (snd (run_pipeline M upper run code language r)) =
     (case fst (snd (stream_pipeline M upper run code language r)) of
        Inl e \<Rightarrow> Inl e
      | Inr _ \<Rightarrow> Inr (last (yields_of (fst (stream_pipeline M upper run code language r))))) \<and>
   snd (snd (stream_pipeline M upper run code language r)) =
     snd (snd (run_pipeline M upper run code language r))"
proof (cases "strip code = []")
  case True
  then show ?thesis by (simp add: run_pipeline_blank stream_pipeline_blank)
next
  case False
  show ?thesis
  proof (cases rule: remote_cases [where run=run and M=M and language=language and code=code and r=r and upper=upper])
    case (fail1 e r1)
    with False show ?thesis by (simp add: run_pipeline_fail1 stream_pipeline_fail1)
  next
    case (fail2 analysis r1 e r2)
    with False show ?thesis by (simp add: run_pipeline_fail2 stream_pipeline_fail2)
  next
    case (fail3 analysis r1 draft_docs r2 e r3)
    with False show ?thesis by (simp add: run_pipeline_stage3 stream_pipeline_fail3)
  next
    case (succeed analysis r1 draft_docs r2 final_output r3)
    with False show ?thesis by (simp add: run_pipeline_stage3 stream_pipeline_done)
  qed
qed

lemma stream_pipeline_failure:
  assumes "stream_pipeline M upper run code language r = (es, res, r')"
    and "Call a p (Inl e) \<in> set es"
  shows "res = Inl e \<and> last es = Call a p (Inl e)"
proof (cases "strip code = []")
  case True
  with assms show ?thesis by (auto simp: stream_pipeline_blank)
next
  case False
  show ?thesis
  proof (cases rule: remote_cases [where run=run and M=M and language=language and code=code and r=r and upper=upper])
    case (fail1 e r1)
    with False assms show ?thesis by (auto simp: stream_pipeline_fail1)
  next
    case (fail2 analysis r1 e r2)
    with False assms show ?thesis by (auto simp: stream_pipeline_fail2)
  next
    case (fail3 analysis r1 draft_docs r2 e r3)
    with False assms show ?thesis by (auto simp: stream_pipeline_fail3)
  next
    case (succeed analysis r1 draft_docs r2 final_output r3)
    with False assms show ?thesis by (auto simp: stream_pipeline_done)
  qed
qed

lemma run_pipeline_failure:
  assumes "run_pipeline M upper run code language r = (es, res, r')"
    and "Call a p (Inl e) \<in> set es"
  shows "res = Inl e \<and> last es = Call a p (Inl e)"
proof (cases "strip code = []")
  case True
  with assms show ?thesis by (auto simp: run_pipeline_blank)
next
  case False
  show ?thesis
  proof (cases rule: remote_cases [where run=run and M=M and language=language and code=code and r=r and upper=upper])
    case (fail1 e r1)
    with False assms show ?thesis by (auto simp: run_pipeline_fail1)
  next
    case (fail2 analysis r1 e r2)
    with False assms show ?thesis by (auto simp: run_pipeline_fail2)
  next
    case (fail3 analysis r1 draft_docs r2 e r3)
    with False assms show ?thesis by (auto simp: run_pipeline_stage3)
  next
    case (succeed analysis r1 draft_docs r2 final_output r3)
    with False assms show ?thesis by (auto simp: run_pipeline_stage3)
  qed
qed

lemma run_pipeline_no_agent_twice:
  "distinct (map fst (calls_of (fst (run_pipeline M upper run code language r))))"
proof (cases "strip code = []")
  case True
  then show ?thesis by (simp add: run_pipeline_blank)
next
  case False
  show ?thesis
  proof (cases rule: remote_cases [where run=run and M=M and language=language and code=code and r=r and upper=upper])
    case (fail1 e r1)
    with False show ?thesis by (simp add: run_pipeline_fail1)
  next
    case (fail2 analysis r1 e r2)
    with False show ?thesis by (simp add: run_pipeline_fail2 agents_distinct)
  next
    case (fail3 analysis r1 draft_docs r2 e r3)
    with False show ?thesis by (simp add: run_pipeline_stage3 agents_distinct)
  next
    case (succeed analysis r1 draft_docs r2 final_output r3)
    with False show ?thesis by (simp add: run_pipeline_stage3 agents_distinct)
  qed
qed

lemma suffix_analyst_prompt: "suffix code (analyst_prompt language code)"
  unfolding analyst_prompt_def by (simp add: suffix_def)

lemma embeds_analyst: "embeds M upper language code (code_analyst M, analyst_prompt language code, out)"
  by (simp add: embeds_def suffix_analyst_prompt agents_distinct)

lemma embeds_writer:
  "embeds M upper language code (doc_writer M, writer_prompt upper analysis language code, out)"
  unfolding embeds_def using agents_distinct [of M] suffix_writer_prompt by auto

lemma embeds_reviewer:
  "embeds M upper language code (quality_reviewer M, reviewer_prompt upper draft_docs language code, out)"
  unfolding embeds_def using agents_distinct [of M] suffix_reviewer_prompt by auto

lemma run_pipeline_embeds:
  assumes "strip code \<noteq> []"
  shows "list_all (embeds M upper language code)
           (calls_of (fst (run_pipeline M upper run code language r)))"
proof (cases rule: remote_cases [where run=run and M=M and language=language and code=code and r=r and upper=upper])
  case (fail1 e r1)
  with assms show ?thesis
    by (simp add: run_pipeline_fail1 embeds_analyst)
next
  case (fail2 analysis r1 e r2)
  with assms show ?thesis
    by (simp add: run_pipeline_fail2 embeds_analyst embeds_writer)
next
  case (fail3 analysis r1 draft_docs r2 e r3)
  with assms show ?thesis
    by (simp add: run_pipeline_stage3 embeds_analyst embeds_writer embeds_reviewer)
next
  case (succeed analysis r1 draft_docs r2 final_output r3)
  with assms show ?thesis
    by (simp add: run_pipeline_stage3 embeds_analyst embeds_writer embeds_reviewer)
qed

lemma env_names_distinct:
  "ascii ''OPENAI_API_KEY'' \<noteq> ascii ''OPENAI_BASE_URL''"
  "ascii ''OPENAI_API_KEY'' \<noteq> ascii ''MODEL''"
  "ascii ''OPENAI_BASE_URL'' \<noteq> ascii ''MODEL''"
  "ascii ''OPENROUTER_API_KEY'' \<noteq> ascii ''OPENAI_BASE_URL''"
  by (simp_all add: ascii_def)

lemma import_agents_unset_key:
  "env (ascii ''OPENROUTER_API_KEY'') = None \<Longrightarrow> import_agents env = Inl TypeError"
  by (simp add: import_agents_def)

subsection \<open>The relay loop of the handler\<close>

lemma fst_relay:
  "fst (relay x es) =
     map (\<lambda>ev. case ev of Call a p res \<Rightarrow> Call a p res | Yield chunk \<Rightarrow> Yield (chunk, None)) es"
  by (induction x es rule: relay.induct) (auto split: prod.splits)

lemma snd_relay: "snd (relay x es) = (if yields_of es = [] then x else last (yields_of es))"
  by (induction x es rule: relay.induct) (auto split: prod.splits)

lemma calls_of_relay: "calls_of (fst (relay x es)) = calls_of es"
  by (induction x es rule: relay.induct) (auto split: prod.splits)

lemma yields_of_relay: "yields_of (fst (relay x es)) = map (\<lambda>chunk. (chunk, None)) (yields_of es)"
  by (induction x es rule: relay.induct) (auto split: prod.splits)

lemma call_in_relay: "Call a p res \<in> set (fst (relay x es)) \<longleftrightarrow> Call a p res \<in> set es"
  by (induction x es rule: relay.induct) (auto split: prod.splits)

lemma no_download_in_relay: "Yield (t, Some path) \<notin> set (fst (relay x es))"
  by (induction x es rule: relay.induct) (auto split: prod.splits)

lemma last_relay_call:
  "es \<noteq> [] \<Longrightarrow> last es = Call a p res \<Longrightarrow> last (fst (relay x es)) = Call a p res"
  by (simp add: fst_relay last_map)

subsection \<open>Time stamps\<close>

declare decimal.simps [simp del]











subsection \<open>Saving\<close>


lemma save_documentation_no_events: "fst (save_documentation content w) = []"
  by (simp add: save_documentation_def Let_def)

lemma save_documentation_remote:
  "remote (snd (snd (save_documentation content w))) = remote w"
  by (simp add: save_documentation_def Let_def)


subsection \<open>The handler, case by case\<close>

lemma uploaded_or_pasted_pure:
  "\<exists>res. uploaded_or_pasted code_input file_input w = ([], res, w)"
  by (auto simp: uploaded_or_pasted_def read_file_def return_task_def
      split: option.splits file_data.splits)

lemma generate_read_error:
  assumes "uploaded_or_pasted code_input file_input w = ([], Inl e, w)"
  shows "generate M upper run code_input file_input language w = ([], Inl e, w)"
  using assms by (simp add: generate_def bind_task_def)

lemma generate_blank:
  assumes "uploaded_or_pasted code_input file_input w = ([], Inr code, w)"
    and "strip code = []"
  shows "generate M upper run code_input file_input language w =
           ([Yield (please_paste, None)], Inr (), w)"
  using assms by (simp add: generate_def bind_task_def yield_def please_paste_def)

lemma async_for_stream:
  assumes "stream_pipeline M upper run code language (remote w) = (chunks, sres, r')"
  shows "async_for [] (on_remote (stream_pipeline M upper run code language)) w =
           (fst (relay [] chunks),
            (case sres of Inl e \<Rightarrow> Inl e | Inr _ \<Rightarrow> Inr (snd (relay [] chunks))),
            w\<lparr>remote := r'\<rparr>)"
  using assms by (auto simp: async_for_def on_remote_def split: prod.splits sum.splits)

lemma generate_pipeline_raises:
  assumes "uploaded_or_pasted code_input file_input w = ([], Inr code, w)"
    and "strip code \<noteq> []"
    and "stream_pipeline M upper run code language (remote w) = (chunks, Inl e, r')"
  shows "generate M upper run code_input file_input language w =
           (fst (relay [] chunks), Inl e, w\<lparr>remote := r'\<rparr>)"
  using assms by (simp add: generate_def bind_task_def async_for_stream)

lemma generate_blank_document:
  assumes "uploaded_or_pasted code_input file_input w = ([], Inr code, w)"
    and "strip code \<noteq> []"
    and "stream_pipeline M upper run code language (remote w) = (chunks, Inr u, r')"
    and "strip (snd (relay [] chunks)) = []"
  shows "generate M upper run code_input file_input language w =
           (fst (relay [] chunks), Inr (), w\<lparr>remote := r'\<rparr>)"
  using assms by (simp add: generate_def bind_task_def async_for_stream return_task_def)

lemma generate_save_raises:
  assumes "uploaded_or_pasted code_input file_input w = ([], Inr code, w)"
    and "strip code \<noteq> []"
    and "stream_pipeline M upper run code language (remote w) = (chunks, Inr u, r')"
    and "strip (snd (relay [] chunks)) \<noteq> []"
    and "save_documentation (snd (relay [] chunks)) (w\<lparr>remote := r'\<rparr>) = (ses, Inl e, w')"
  shows "generate M upper run code_input file_input language w =
           (fst (relay [] chunks), Inl e, w')"
  using assms save_documentation_no_events [of "snd (relay [] chunks)" "w\<lparr>remote := r'\<rparr>"]
  by (simp add: generate_def bind_task_def async_for_stream)

lemma generate_saved:
  assumes "uploaded_or_pasted code_input file_input w = ([], Inr code, w)"
    and "strip code \<noteq> []"
    and "stream_pipeline M upper run code language (remote w) = (chunks, Inr u, r')"
    and "strip (snd (relay [] chunks)) \<noteq> []"
    and "save_documentation (snd (relay [] chunks)) (w\<lparr>remote := r'\<rparr>) = (ses, Inr path, w')"
  shows "generate M upper run code_input file_input language w =
           (fst (relay [] chunks) @ [Yield (snd (relay [] chunks), Some path)], Inr (), w')"
  using assms save_documentation_no_events [of "snd (relay [] chunks)" "w\<lparr>remote := r'\<rparr>"]
  by (simp add: generate_def bind_task_def async_for_stream yield_def)

lemma generate_cases
  [case_names read_error blank_code pipeline_raises blank_document save_raises saved]:
  fixes run :: "'r runner" and w :: "'r world"
  obtains
    (read_error) e where
      "uploaded_or_pasted code_input file_input w = ([], Inl e, w)"
      "generate M upper run code_input file_input language w = ([], Inl e, w)"
  | (blank_code) code where
      "uploaded_or_pasted code_input file_input w = ([], Inr code, w)"
      "strip code = []"
      "generate M upper run code_input file_input language w =
         ([Yield (please_paste, None)], Inr (), w)"
  | (pipeline_raises) code chunks e r' where
      "uploaded_or_pasted code_input file_input w = ([], Inr code, w)"
      "strip code \<noteq> []"
      "stream_pipeline M upper run code language (remote w) = (chunks, Inl e, r')"
      "generate M upper run code_input file_input language w =
         (fst (relay [] chunks), Inl e, w\<lparr>remote := r'\<rparr>)"
  | (blank_document) code chunks r' where
      "uploaded_or_pasted code_input file_input w = ([], Inr code, w)"
      "strip code \<noteq> []"
      "stream_pipeline M upper run code language (remote w) = (chunks, Inr (), r')"
      "strip (snd (relay [] chunks)) = []"
      "generate M upper run code_input file_input language w =
         (fst (relay [] chunks), Inr (), w\<lparr>remote := r'\<rparr>)"
  | (save_raises) code chunks r' e w' where
      "uploaded_or_pasted code_input file_input w = ([], Inr code, w)"
      "strip code \<noteq> []"
      "stream_pipeline M upper run code language (remote w) = (chunks, Inr (), r')"
      "strip (snd (relay [] chunks)) \<noteq> []"
      "save_documentation (snd (relay [] chunks)) (w\<lparr>remote := r'\<rparr>) = ([], Inl e, w')"
      "generate M upper run code_input file_input language w =
         (fst (relay [] chunks), Inl e, w')"
  | (saved) code chunks r' path w' where
      "uploaded_or_pasted code_input file_input w = ([], Inr code, w)"
      "strip code \<noteq> []"
      "stream_pipeline M upper run code language (remote w) = (chunks, Inr (), r')"
      "strip (snd (relay [] chunks)) \<noteq> []"
      "save_documentation (snd (relay [] chunks)) (w\<lparr>remote := r'\<rparr>) = ([], Inr path, w')"
      "generate M upper run code_input file_input language w =
         (fst (relay [] chunks) @ [Yield (snd (relay [] chunks), Some path)], Inr (), w')"
proof -
  obtain res where up: "uploaded_or_pasted code_input file_input w = ([], res, w)"
    using uploaded_or_pasted_pure by blast
  show thesis
  proof (cases res)
    case (Inl e)
    with up show thesis by (auto intro: read_error generate_read_error)
  next
    case (Inr code)
    note code = up [unfolded Inr]
    show thesis
    proof (cases "strip code = []")
      case True
      with code show thesis by (auto intro: blank_code generate_blank)
    next
      case False
      obtain chunks sres r' where
        st: "stream_pipeline M upper run code language (remote w) = (chunks, sres, r')"
        by (cases "stream_pipeline M upper run code language (remote w)")
      show thesis
      proof (cases sres)
        case (Inl e)
        with code False st show thesis
          by (auto intro: pipeline_raises generate_pipeline_raises)
      next
        case ok: (Inr u)
        note st' = st [unfolded ok]
        show thesis
        proof (cases "strip (snd (relay [] chunks)) = []")
          case True
          with code False st' show thesis
            by (auto intro: blank_document generate_blank_document)
        next
          case doc: False
          obtain ses sv w' where
            sv: "save_documentation (snd (relay [] chunks)) (w\<lparr>remote := r'\<rparr>) = (ses, sv, w')"
            by (cases "save_documentation (snd (relay [] chunks)) (w\<lparr>remote := r'\<rparr>)")
          with save_documentation_no_events [of "snd (relay [] chunks)" "w\<lparr>remote := r'\<rparr>"]
          have ses: "ses = []" by simp
          show thesis
          proof (cases sv)
            case (Inl e)
            with code False st' doc sv ses show thesis
              by (auto intro: save_raises generate_save_raises)
          next
            case (Inr path)
            with code False st' doc sv ses show thesis
              by (auto intro: saved generate_saved)
          qed
        qed
      qed
    qed
  qed
qed

subsection \<open>Failing calls\<close>

lemma stream_pipeline_no_agent_twice:
  "distinct (map fst (calls_of (fst (stream_pipeline M upper run code language r))))"
  using run_pipeline_no_agent_twice [of M upper run code language r]
    pipelines_agree [of M upper run code language r] by simp

lemma generate_failure:
  assumes g: "generate M upper run code_input file_input language w = (ges, gres, w')"
    and c: "Call a p (Inl e) \<in> set ges"
  shows "gres = Inl e \<and> last ges = Call a p (Inl e) \<and> distinct (map fst (calls_of ges)) \<and>
         dirs w' = dirs w \<and> files w' = files w"
proof (cases rule: generate_cases [where M=M and upper=upper and run=run and code_input=code_input
      and file_input=file_input and language=language and w=w])
  case (read_error e')
  with g c show ?thesis by auto
next
  case (blank_code code)
  with g c show ?thesis by auto
next
  case (pipeline_raises code chunks e' r')
  with g have ges: "ges = fst (relay [] chunks)" and gres: "gres = Inl e'"
    and w': "w' = w\<lparr>remote := r'\<rparr>" by simp_all
  from c ges have in_chunks: "Call a p (Inl e) \<in> set chunks" by (simp add: call_in_relay)
  from stream_pipeline_failure [OF pipeline_raises(3) in_chunks]
  have "e' = e" and l: "last chunks = Call a p (Inl e)" by simp_all
  moreover from in_chunks have "chunks \<noteq> []" by auto
  moreover have "distinct (map fst (calls_of chunks))"
    using stream_pipeline_no_agent_twice [of M upper run code language "remote w"]
      pipeline_raises(3) by simp
  ultimately show ?thesis
    using ges gres w' by (simp add: last_relay_call calls_of_relay)
next
  case (blank_document code chunks r')
  with g c have "Call a p (Inl e) \<in> set chunks" by (auto simp: call_in_relay)
  from stream_pipeline_failure [OF blank_document(3) this] show ?thesis by simp
next
  case (save_raises code chunks r' e' w'')
  with g c have "Call a p (Inl e) \<in> set chunks" by (auto simp: call_in_relay)
  from stream_pipeline_failure [OF save_raises(3) this] show ?thesis by simp
next
  case (saved code chunks r' path w'')
  with g c have "Call a p (Inl e) \<in> set chunks" by (auto simp: call_in_relay)
  from stream_pipeline_failure [OF saved(3) this] show ?thesis by simp
qed

subsection \<open>Concrete runs of the handler\<close>

lemma scripted_second_call_fails:
  "scripted a p second_call_fails = (Inr (ascii ''analysis''), [Inl timeout_error])"
  "scripted a' p' [Inl timeout_error] = (Inl timeout_error, [])"
  by (simp_all add: second_call_fails_def)

lemma pasted: "uploaded_or_pasted code_input None w = ([], Inr code_input, w)"
  by (simp add: uploaded_or_pasted_def return_task_def)

lemma empty_disk_remote:
  "remote (empty_disk script) = script"
  "(empty_disk script)\<lparr>remote := script'\<rparr> = empty_disk script'"
  "dirs (empty_disk script) = {}"
  "files (empty_disk script) = Map.empty"
  by (simp_all add: empty_disk_def)

lemma failing_run:
  "run_pipeline default_model upper_ascii scripted add_py Python second_call_fails =
     ([Call (code_analyst default_model) (analyst_prompt Python add_py) (Inr (ascii ''analysis'')),
       Call (doc_writer default_model) (writer_prompt upper_ascii (ascii ''analysis'') Python add_py)
         (Inl timeout_error)],
      Inl timeout_error, [])"
  by (rule run_pipeline_fail2 [OF add_py_not_blank scripted_second_call_fails])

lemma failing_stream:
  "stream_pipeline default_model upper_ascii scripted add_py Python second_call_fails =
     ([Yield step1,
       Call (code_analyst default_model) (analyst_prompt Python add_py) (Inr (ascii ''analysis'')),
       Yield step2,
       Call (doc_writer default_model) (writer_prompt upper_ascii (ascii ''analysis'') Python add_py)
         (Inl timeout_error)],
      Inl timeout_error, [])"
  by (rule stream_pipeline_fail2 [OF add_py_not_blank scripted_second_call_fails])

lemma failing_generate:
  "generate default_model upper_ascii scripted add_py None Python (empty_disk second_call_fails) =
     ([Yield (step1, None),
       Call (code_analyst default_model) (analyst_prompt Python add_py) (Inr (ascii ''analysis'')),
       Yield (step2, None),
       Call (doc_writer default_model) (writer_prompt upper_ascii (ascii ''analysis'') Python add_py)
         (Inl timeout_error)],
      Inl timeout_error, empty_disk [])"
  using generate_pipeline_raises [OF pasted add_py_not_blank,
      of default_model upper_ascii scripted Python "empty_disk second_call_fails"]
    failing_stream
  by (simp add: empty_disk_remote)

subsection \<open>The final document\<close>


subsection \<open>Concrete runs that reach the end of the pipeline\<close>

lemma scripted_blank_review:
  "scripted a p blank_review = (Inr (ascii ''analysis''), [Inr (ascii ''# draft''), Inr blank])"
  "scripted a' p' [Inr (ascii ''# draft''), Inr blank] = (Inr (ascii ''# draft''), [Inr blank])"
  "scripted a'' p'' [Inr blank] = (Inr blank, [])"
  by (simp_all add: blank_review_def)

lemma successful_stream:
  "stream_pipeline default_model upper_ascii scripted add_py Python three_answers =
     ([Yield step1,
       Call (code_analyst default_model) (analyst_prompt Python add_py) (Inr (ascii ''analysis'')),
       Yield step2,
       Call (doc_writer default_model) (writer_prompt upper_ascii (ascii ''analysis'') Python add_py)
         (Inr (ascii ''# draft'')),
       Yield step3,
       Call (quality_reviewer default_model)
         (reviewer_prompt upper_ascii (ascii ''# draft'') Python add_py) (Inr (ascii ''# Docs'')),
       Yield (ascii ''# Docs'')],
      Inr (), [])"
  by (rule stream_pipeline_done [OF add_py_not_blank scripted_three_answers])

lemma blank_review_stream:
  "stream_pipeline default_model upper_ascii scripted add_py Python blank_review =
     ([Yield step1,
       Call (code_analyst default_model) (analyst_prompt Python add_py) (Inr (ascii ''analysis'')),
       Yield step2,
       Call (doc_writer default_model) (writer_prompt upper_ascii (ascii ''analysis'') Python add_py)
         (Inr (ascii ''# draft'')),
       Yield step3,
       Call (quality_reviewer default_model)
         (reviewer_prompt upper_ascii (ascii ''# draft'') Python add_py) (Inr blank),
       Yield blank],
      Inr (), [])"
  by (rule stream_pipeline_done [OF add_py_not_blank scripted_blank_review])

lemma example_clock:
  "valid_datetime (clock (empty_disk script))"
  "strftime_Ymd_HMS (clock (empty_disk script)) = ascii ''20261103_234705''"
  "1000 \<le> year (clock (empty_disk script))"
  by (simp_all add: empty_disk_def valid_datetime_def strftime_Ymd_HMS_def zfill_def
      decimal.simps ascii_def)

text \<open>A year of three digits is printed with three digits: the pattern needs four.\<close>

lemma strftime_year_999:
  "valid_datetime \<lparr>year = 999, month = 1, day = 1, hour = 0, minute = 0, second = 0\<rparr>"
  "strftime_Ymd_HMS \<lparr>year = 999, month = 1, day = 1, hour = 0, minute = 0, second = 0\<rparr> =
     ascii ''9990101_000000''"
  "\<not> is_timestamp (ascii ''9990101_000000'')"
  by (simp_all add: valid_datetime_def strftime_Ymd_HMS_def zfill_def decimal.simps ascii_def
      is_timestamp_def)

lemma docs_not_blank: "strip (ascii ''# Docs'') \<noteq> []"
  by (simp add: strip_def isspace_def ascii_def)

lemma example_save:
  "save_documentation (ascii ''# Docs'') (empty_disk []) =
     ([], Inr (ascii ''temp/documentation_20261103_234705.md''),
      (empty_disk [])\<lparr>dirs := {ascii ''temp''},
        files := [ascii ''temp/documentation_20261103_234705.md'' \<mapsto> Text (ascii ''# Docs'')]\<rparr>)"
proof -
  have enc: "utf8_encodable (ascii ''# Docs'')"
    by (simp add: utf8_encodable_def ascii_def)
  have path: "ascii ''temp'' @ ascii ''/'' @
      ascii ''documentation_'' @ ascii ''20261103_234705'' @ ascii ''.md'' =
      ascii ''temp/documentation_20261103_234705.md''"
    by (simp add: ascii_def)
  have other: "ascii ''.md'' \<noteq> []"
    by (simp add: ascii_def)
  show ?thesis
    by (simp add: save_documentation_def Let_def example_clock empty_disk_remote enc path other)
qed

lemma successful_generate:
  "generate default_model upper_ascii scripted add_py None Python (empty_disk three_answers) =
     ([Yield (step1, None),
       Call (code_analyst default_model) (analyst_prompt Python add_py) (Inr (ascii ''analysis'')),
       Yield (step2, None),
       Call (doc_writer default_model) (writer_prompt upper_ascii (ascii ''analysis'') Python add_py)
         (Inr (ascii ''# draft'')),
       Yield (step3, None),
       Call (quality_reviewer default_model)
         (reviewer_prompt upper_ascii (ascii ''# draft'') Python add_py) (Inr (ascii ''# Docs'')),
       Yield (ascii ''# Docs'', None),
       Yield (ascii ''# Docs'', Some (ascii ''temp/documentation_20261103_234705.md''))],
      Inr (),
      (empty_disk [])\<lparr>dirs := {ascii ''temp''},
        files := [ascii ''temp/documentation_20261103_234705.md'' \<mapsto> Text (ascii ''# Docs'')]\<rparr>)"
  using generate_saved [OF pasted add_py_not_blank,
      of default_model upper_ascii scripted Python "empty_disk three_answers"]
    successful_stream example_save docs_not_blank
  by (simp add: empty_disk_remote)


subsection \<open>Uploaded files\<close>








section \<open>The claims\<close>

subsection \<open>C1\<close>

text \<open>
  C1, as amended: for code that is not blank, when the Analyzer's call, then the Writer's
  call and then the Reviewer's call each answer, the run makes exactly these three remote
  calls, in this order, from \<open>run_pipeline\<close> and from \<open>stream_pipeline\<close> alike; the
  Writer's prompt holds the Analyzer's whole answer and the Reviewer's prompt holds the
  Writer's whole answer.
\<close>
theorem three_calls_in_order:
  assumes "strip code \<noteq> []"
    and "run (code_analyst M) (analyst_prompt language code) r = (Inr analysis, r1)"
    and "run (doc_writer M) (writer_prompt upper analysis language code) r1 = (Inr draft_docs, r2)"
    and "run (quality_reviewer M) (reviewer_prompt upper draft_docs language code) r2 = (Inr final_output, r3)"
  shows "calls_of (fst (run_pipeline M upper run code language r)) =
           [(code_analyst M, analyst_prompt language code, Inr analysis),
            (doc_writer M, writer_prompt upper analysis language code, Inr draft_docs),
            (quality_reviewer M, reviewer_prompt upper draft_docs language code, Inr final_output)] \<and>
         calls_of (fst (stream_pipeline M upper run code language r)) =
           calls_of (fst (run_pipeline M upper run code language r)) \<and>
         sublist analysis (writer_prompt upper analysis language code) \<and>
         sublist draft_docs (reviewer_prompt upper draft_docs language code)"
  using assms
  by (simp add: run_pipeline_stage3 stream_pipeline_done sublist_writer_prompt sublist_reviewer_prompt)

theorem three_calls_in_order_witness:
  "strip add_py \<noteq> [] \<and>
   calls_of (fst (run_pipeline default_model upper_ascii scripted add_py Python three_answers)) =
     [(code_analyst default_model, analyst_prompt Python add_py, Inr (ascii ''analysis'')),
      (doc_writer default_model, writer_prompt upper_ascii (ascii ''analysis'') Python add_py,
       Inr (ascii ''# draft'')),
      (quality_reviewer default_model, reviewer_prompt upper_ascii (ascii ''# draft'') Python add_py,
       Inr (ascii ''# Docs''))] \<and>
   calls_of (fst (stream_pipeline default_model upper_ascii scripted add_py Python three_answers)) =
     calls_of (fst (run_pipeline default_model upper_ascii scripted add_py Python three_answers)) \<and>
   sublist (ascii ''analysis'') (writer_prompt upper_ascii (ascii ''analysis'') Python add_py) \<and>
   sublist (ascii ''# draft'') (reviewer_prompt upper_ascii (ascii ''# draft'') Python add_py)"
  using three_calls_in_order [OF add_py_not_blank scripted_three_answers, of default_model upper_ascii]
    add_py_not_blank
  by simp

text \<open>
  C1, as stated, fails: when the first call raises, one remote call has been made, not
  three.
\<close>
theorem first_call_fails_counterexample:
  "strip add_py \<noteq> [] \<and>
   run_pipeline default_model upper_ascii scripted add_py Python [Inl timeout_error] =
     ([Call (code_analyst default_model) (analyst_prompt Python add_py) (Inl timeout_error)],
      Inl timeout_error, []) \<and>
   stream_pipeline default_model upper_ascii scripted add_py Python [Inl timeout_error] =
     ([Yield step1,
       Call (code_analyst default_model) (analyst_prompt Python add_py) (Inl timeout_error)],
      Inl timeout_error, []) \<and>
   length (calls_of (fst (run_pipeline default_model upper_ascii scripted add_py Python
     [Inl timeout_error]))) = 1 \<and>
   length (calls_of (fst (stream_pipeline default_model upper_ascii scripted add_py Python
     [Inl timeout_error]))) = 1"
  by (simp add: add_py_not_blank run_pipeline_fail1 [OF add_py_not_blank]
      stream_pipeline_fail1 [OF add_py_not_blank])

subsection \<open>C2\<close>

text \<open>
  C2: for code that is not blank, when all three inference calls answer,
  \<open>stream_pipeline\<close> yields exactly four values: the three fixed progress strings, each
  right before the call of its stage, and last the Reviewer's answer.
\<close>
theorem stream_yields_four_values:
  assumes "strip code \<noteq> []"
    and "run (code_analyst M) (analyst_prompt language code) r = (Inr analysis, r1)"
    and "run (doc_writer M) (writer_prompt upper analysis language code) r1 = (Inr draft_docs, r2)"
    and "run (quality_reviewer M) (reviewer_prompt upper draft_docs language code) r2 = (Inr final_output, r3)"
  shows "stream_pipeline M upper run code language r =
           ([Yield step1,
             Call (code_analyst M) (analyst_prompt language code) (Inr analysis),
             Yield step2,
             Call (doc_writer M) (writer_prompt upper analysis language code) (Inr draft_docs),
             Yield step3,
             Call (quality_reviewer M) (reviewer_prompt upper draft_docs language code) (Inr final_output),
             Yield final_output],
            Inr (), r3) \<and>
         yields_of (fst (stream_pipeline M upper run code language r)) =
           [step1, step2, step3, final_output]"
  using assms by (simp add: stream_pipeline_done)

theorem stream_yields_four_values_witness:
  "strip add_py \<noteq> [] \<and>
   yields_of (fst (stream_pipeline default_model upper_ascii scripted add_py Python three_answers)) =
     [step1, step2, step3, ascii ''# Docs''] \<and>
   length (yields_of (fst (stream_pipeline default_model upper_ascii scripted add_py Python
     three_answers))) = 4"
  using stream_yields_four_values [OF add_py_not_blank scripted_three_answers, of default_model upper_ascii]
    add_py_not_blank
  by simp

subsection \<open>C3\<close>

text \<open>
  C3: for code that is empty once surrounding white space is trimmed (white space only
  included), \<open>run_pipeline\<close> returns the fixed warning and \<open>stream_pipeline\<close> yields it
  as its only value; no remote call is made: the run has no call event and leaves the
  remote side as it was.
\<close>
theorem blank_code_short_circuits:
  assumes "strip code = []"
  shows "run_pipeline M upper run code language r = ([], Inr no_code_warning, r) \<and>
         stream_pipeline M upper run code language r = ([Yield no_code_warning], Inr (), r)"
  using assms by (simp add: run_pipeline_blank stream_pipeline_blank)

theorem blank_code_short_circuits_witness:
  "strip blank = [] \<and>
   run_pipeline default_model upper_ascii scripted blank Python three_answers =
     ([], Inr no_code_warning, three_answers) \<and>
   stream_pipeline default_model upper_ascii scripted blank Python three_answers =
     ([Yield no_code_warning], Inr (), three_answers)"
  using blank_code_short_circuits [OF blank_is_blank] blank_is_blank by simp

subsection \<open>C4\<close>

text \<open>
  C4: a failing inference call is neither caught nor retried. Whichever remote call
  raises, in \<open>run_pipeline\<close>, in \<open>stream_pipeline\<close> or under the handler \<open>generate\<close>, its
  exception is the outcome of the run, the failed call is the last event of the run (no
  later stage is called and nothing more is yielded), no agent is called twice, and
  under \<open>generate\<close> the directories and files are as they were: nothing is saved.
\<close>
theorem failure_propagates:
  "(run_pipeline M upper run code language r = (es, res, r') \<and> Call a p (Inl e) \<in> set es \<longrightarrow>
      res = Inl e \<and> last es = Call a p (Inl e) \<and> distinct (map fst (calls_of es))) \<and>
   (stream_pipeline M upper run code language r = (ses, sres, sr) \<and> Call a p (Inl e) \<in> set ses \<longrightarrow>
      sres = Inl e \<and> last ses = Call a p (Inl e) \<and> distinct (map fst (calls_of ses))) \<and>
   (generate M upper run code_input file_input language w = (ges, gres, w') \<and>
    Call a p (Inl e) \<in> set ges \<longrightarrow>
      gres = Inl e \<and> last ges = Call a p (Inl e) \<and> distinct (map fst (calls_of ges)) \<and>
      dirs w' = dirs w \<and> files w' = files w)"
proof -
  have "res = Inl e \<and> last es = Call a p (Inl e) \<and> distinct (map fst (calls_of es))"
    if "run_pipeline M upper run code language r = (es, res, r')" "Call a p (Inl e) \<in> set es"
    using that run_pipeline_failure [of M upper run code language r es res r' a p e]
      run_pipeline_no_agent_twice [of M upper run code language r] by simp
  moreover
  have "sres = Inl e \<and> last ses = Call a p (Inl e) \<and> distinct (map fst (calls_of ses))"
    if "stream_pipeline M upper run code language r = (ses, sres, sr)" "Call a p (Inl e) \<in> set ses"
    using that stream_pipeline_failure [of M upper run code language r ses sres sr a p e]
      stream_pipeline_no_agent_twice [of M upper run code language r] by simp
  moreover
  have "gres = Inl e \<and> last ges = Call a p (Inl e) \<and> distinct (map fst (calls_of ges)) \<and>
      dirs w' = dirs w \<and> files w' = files w"
    if "generate M upper run code_input file_input language w = (ges, gres, w')"
      "Call a p (Inl e) \<in> set ges"
    using that by (rule generate_failure)
  ultimately show ?thesis by blast
qed

theorem failure_propagates_witness:
  "fst (snd (run_pipeline default_model upper_ascii scripted add_py Python second_call_fails)) =
     Inl timeout_error \<and>
   fst (snd (stream_pipeline default_model upper_ascii scripted add_py Python second_call_fails)) =
     Inl timeout_error \<and>
   fst (snd (generate default_model upper_ascii scripted add_py None Python
     (empty_disk second_call_fails))) = Inl timeout_error \<and>
   last (fst (generate default_model upper_ascii scripted add_py None Python
     (empty_disk second_call_fails))) =
     Call (doc_writer default_model) (writer_prompt upper_ascii (ascii ''analysis'') Python add_py)
       (Inl timeout_error) \<and>
   dirs (snd (snd (generate default_model upper_ascii scripted add_py None Python
     (empty_disk second_call_fails)))) = {} \<and>
   files (snd (snd (generate default_model upper_ascii scripted add_py None Python
     (empty_disk second_call_fails)))) = Map.empty"
proof -
  let ?call = "Call (doc_writer default_model)
    (writer_prompt upper_ascii (ascii ''analysis'') Python add_py) (Inl timeout_error)"
  let ?r = "run_pipeline default_model upper_ascii scripted add_py Python second_call_fails"
  let ?s = "stream_pipeline default_model upper_ascii scripted add_py Python second_call_fails"
  let ?g = "generate default_model upper_ascii scripted add_py None Python
    (empty_disk second_call_fails)"
  have r: "?r = (fst ?r, fst (snd ?r), snd (snd ?r))" "?call \<in> set (fst ?r)"
    by (simp_all add: failing_run)
  have s: "?s = (fst ?s, fst (snd ?s), snd (snd ?s))" "?call \<in> set (fst ?s)"
    by (simp_all add: failing_stream)
  have g: "?g = (fst ?g, fst (snd ?g), snd (snd ?g))" "?call \<in> set (fst ?g)"
    by (simp_all add: failing_generate)
  from r s g
    failure_propagates [where M=default_model and upper=upper_ascii and run=scripted
      and code=add_py and language=Python and r=second_call_fails
      and es="fst ?r" and res="fst (snd ?r)" and r'="snd (snd ?r)"
      and ses="fst ?s" and sres="fst (snd ?s)" and sr="snd (snd ?s)"
      and code_input=add_py and file_input=None and w="empty_disk second_call_fails"
      and ges="fst ?g" and gres="fst (snd ?g)" and w'="snd (snd ?g)"
      and a="doc_writer default_model"
      and p="writer_prompt upper_ascii (ascii ''analysis'') Python add_py" and e=timeout_error]
  show ?thesis by (simp add: empty_disk_remote)
qed

subsection \<open>C5\<close>




subsection \<open>C6\<close>

text \<open>
  C6, as amended: when \<^verbatim>\<open>OPENROUTER_API_KEY\<close> is set, importing the module hands its
  value to the inference collaborator as \<^verbatim>\<open>OPENAI_API_KEY\<close>, sets \<^verbatim>\<open>OPENAI_BASE_URL\<close> to
  the fixed address \<^verbatim>\<open>https://openrouter.ai/api/v1\<close>, and reads the model identifier
  from \<^verbatim>\<open>MODEL\<close>, \<^verbatim>\<open>openai/gpt-4o-mini\<close> when that is not set; the three agents are
  built with this model identifier.
\<close>
theorem configuration_at_import:
  assumes "env (ascii ''OPENROUTER_API_KEY'') = Some key"
  shows "\<exists>m. import_agents env = Inr m \<and>
           os_environ m (ascii ''OPENAI_API_KEY'') = Some key \<and>
           os_environ m (ascii ''OPENAI_BASE_URL'') = Some (ascii ''https://openrouter.ai/api/v1'') \<and>
           MODEL m = (case env (ascii ''MODEL'') of
                        None \<Rightarrow> ascii ''openai/gpt-4o-mini''
                      | Some v \<Rightarrow> v) \<and>
           model (code_analyst (MODEL m)) = MODEL m \<and>
           model (doc_writer (MODEL m)) = MODEL m \<and>
           model (quality_reviewer (MODEL m)) = MODEL m"
  using assms env_names_distinct
  by (simp add: import_agents_def getenv_def Let_def code_analyst_def doc_writer_def
      quality_reviewer_def)

theorem configuration_at_import_witness:
  "local_endpoint_env (ascii ''OPENROUTER_API_KEY'') = Some (ascii ''sk-or-1'') \<and>
   (case import_agents local_endpoint_env of
      Inl e \<Rightarrow> False
    | Inr m \<Rightarrow>
        os_environ m (ascii ''OPENAI_API_KEY'') = Some (ascii ''sk-or-1'') \<and>
        MODEL m = ascii ''openai/gpt-4o-mini'')"
proof -
  have key: "local_endpoint_env (ascii ''OPENROUTER_API_KEY'') = Some (ascii ''sk-or-1'')"
    using env_names_distinct by (simp add: local_endpoint_env_def)
  have "local_endpoint_env (ascii ''MODEL'') = None"
    by (simp add: local_endpoint_env_def ascii_def)
  with configuration_at_import [of local_endpoint_env "ascii ''sk-or-1''", OF key] key show ?thesis by auto
qed

text \<open>
  C6, as stated, fails for the base endpoint: an address the environment provides in
  \<^verbatim>\<open>OPENAI_BASE_URL\<close> is overwritten with the fixed one.
\<close>
theorem base_url_not_from_environment_counterexample:
  "local_endpoint_env (ascii ''OPENAI_BASE_URL'') = Some (ascii ''http://localhost:8000/v1'') \<and>
   (case import_agents local_endpoint_env of
      Inl e \<Rightarrow> None
    | Inr m \<Rightarrow> os_environ m (ascii ''OPENAI_BASE_URL'')) =
     Some (ascii ''https://openrouter.ai/api/v1'') \<and>
   ascii ''https://openrouter.ai/api/v1'' \<noteq> ascii ''http://localhost:8000/v1''"
proof -
  have key: "local_endpoint_env (ascii ''OPENROUTER_API_KEY'') = Some (ascii ''sk-or-1'')"
    using env_names_distinct by (simp add: local_endpoint_env_def)
  have "local_endpoint_env (ascii ''OPENAI_BASE_URL'') = Some (ascii ''http://localhost:8000/v1'')"
    by (simp add: local_endpoint_env_def)
  moreover have "ascii ''https://openrouter.ai/api/v1'' \<noteq> ascii ''http://localhost:8000/v1''"
    by (simp add: ascii_def)
  ultimately show ?thesis
    using key by (simp add: import_agents_def Let_def)
qed

subsection \<open>C7\<close>

text \<open>
  C7: the submitted code is not changed on its way through a run. For code that is not
  blank, every remote call of \<open>run_pipeline\<close> and of \<open>stream_pipeline\<close> has a prompt
  that ends with the code string the driver received, character for character, and the
  Writer's and the Reviewer's prompt is the template of its stage around that string.
\<close>
theorem prompts_embed_received_code:
  assumes "strip code \<noteq> []"
  shows "list_all (embeds M upper language code)
           (calls_of (fst (run_pipeline M upper run code language r))) \<and>
         list_all (embeds M upper language code)
           (calls_of (fst (stream_pipeline M upper run code language r)))"
  using run_pipeline_embeds [OF assms] pipelines_agree [of M upper run code language r] by simp

theorem prompts_embed_received_code_witness:
  "strip add_py \<noteq> [] \<and>
   calls_of (fst (run_pipeline default_model upper_ascii scripted add_py Python three_answers)) =
     [(code_analyst default_model, analyst_prompt Python add_py, Inr (ascii ''analysis'')),
      (doc_writer default_model, writer_prompt upper_ascii (ascii ''analysis'') Python add_py,
       Inr (ascii ''# draft'')),
      (quality_reviewer default_model, reviewer_prompt upper_ascii (ascii ''# draft'') Python add_py,
       Inr (ascii ''# Docs''))] \<and>
   embeds default_model upper_ascii Python add_py
     (doc_writer default_model, writer_prompt upper_ascii (ascii ''analysis'') Python add_py,
      Inr (ascii ''# draft'')) \<and>
   embeds default_model upper_ascii Python add_py
     (quality_reviewer default_model, reviewer_prompt upper_ascii (ascii ''# draft'') Python add_py,
      Inr (ascii ''# Docs''))"
  using prompts_embed_received_code [OF add_py_not_blank, of default_model upper_ascii Python scripted three_answers]
    add_py_not_blank
  by (simp add: run_pipeline_stage3 [OF add_py_not_blank scripted_three_answers])

subsection \<open>C8\<close>

text \<open>
  C8: with the inference call a function \<open>f\<close> of the agent and the prompt alone, the two
  entry points make the same remote calls (same agents, same prompts, same answers), and
  what \<open>run_pipeline\<close> returns is the last value \<open>stream_pipeline\<close> yields; when a call
  raises, the same exception leaves both. This covers blank code, where both give the
  same warning.
\<close>
theorem entry_points_agree:
  "calls_of (fst (stream_pipeline M upper (pure_runner f) code language r)) =
     calls_of (fst (run_pipeline M upper (pure_runner f) code language r)) \<and>
   fst (snd (run_pipeline M upper (pure_runner f) code language r)) =
     (case fst (snd (stream_pipeline M upper (pure_runner f) code language r)) of
        Inl e \<Rightarrow> Inl e
      | Inr _ \<Rightarrow> Inr (last (yields_of (fst (stream_pipeline M upper (pure_runner f) code language r)))))"
  using pipelines_agree [of M upper "pure_runner f" code language r] by simp

subsection \<open>C9\<close>

text \<open>
  C9: under the handler \<open>generate\<close> a blank final value is never saved. If a download path
  is yielded or a file or directory has changed, then the pipeline ran to its end on code
  that is not blank and the last value it yielded is not blank; and when the last value
  the pipeline yields is blank, the files and directories are as they were and every
  value the handler yields comes with no download path.
\<close>
theorem blank_document_never_saved:
  assumes g: "generate M upper run code_input file_input language w = (es, res, w')"
  shows "((\<exists>t path. Yield (t, Some path) \<in> set es) \<or> files w' \<noteq> files w \<or> dirs w' \<noteq> dirs w \<longrightarrow>
            (\<exists>code chunks r'.
               uploaded_or_pasted code_input file_input w = ([], Inr code, w) \<and>
               strip code \<noteq> [] \<and>
               stream_pipeline M upper run code language (remote w) = (chunks, Inr (), r') \<and>
               yields_of chunks \<noteq> [] \<and> strip (last (yields_of chunks)) \<noteq> [])) \<and>
         (\<forall>code chunks sres r'.
            uploaded_or_pasted code_input file_input w = ([], Inr code, w) \<and>
            stream_pipeline M upper run code language (remote w) = (chunks, sres, r') \<and>
            (yields_of chunks = [] \<or> strip (last (yields_of chunks)) = []) \<longrightarrow>
            files w' = files w \<and> dirs w' = dirs w \<and>
            list_all (\<lambda>y. snd y = None) (yields_of es))"
proof -
  have strip_nil: "strip [] = []" by (simp add: strip_def)
  have relayed: "list_all (\<lambda>y. snd y = None) (yields_of (fst (relay [] chunks)))" for chunks
    by (simp add: yields_of_relay list_all_iff)
  show ?thesis
  proof (cases rule: generate_cases [where M=M and upper=upper and run=run
        and code_input=code_input and file_input=file_input and language=language and w=w])
    case (read_error e)
    with g show ?thesis by auto
  next
    case (blank_code code)
    with g show ?thesis by auto
  next
    case (pipeline_raises code chunks e r')
    with g relayed [of chunks] show ?thesis by (auto simp: no_download_in_relay)
  next
    case (blank_document code chunks r')
    with g relayed [of chunks] show ?thesis by (auto simp: no_download_in_relay)
  next
    case (save_raises code chunks r' e w'')
    from save_raises(4) have "yields_of chunks \<noteq> [] \<and> strip (last (yields_of chunks)) \<noteq> []"
      by (auto simp: snd_relay strip_nil split: if_splits)
    with save_raises(1-3) show ?thesis by auto
  next
    case (saved code chunks r' path w'')
    from saved(4) have "yields_of chunks \<noteq> [] \<and> strip (last (yields_of chunks)) \<noteq> []"
      by (auto simp: snd_relay strip_nil split: if_splits)
    with saved(1-3) show ?thesis by auto
  qed
qed

theorem blank_document_never_saved_witness:
  "strip (last (yields_of (fst (stream_pipeline default_model upper_ascii scripted add_py Python
     blank_review)))) = [] \<and>
   files (snd (snd (generate default_model upper_ascii scripted add_py None Python
     (empty_disk blank_review)))) = Map.empty \<and>
   dirs (snd (snd (generate default_model upper_ascii scripted add_py None Python
     (empty_disk blank_review)))) = {} \<and>
   list_all (\<lambda>y. snd y = None)
     (yields_of (fst (generate default_model upper_ascii scripted add_py None Python
       (empty_disk blank_review)))) \<and>
   Yield (ascii ''# Docs'', Some (ascii ''temp/documentation_20261103_234705.md''))
     \<in> set (fst (generate default_model upper_ascii scripted add_py None Python
       (empty_disk three_answers))) \<and>
   strip (last (yields_of (fst (stream_pipeline default_model upper_ascii scripted add_py Python
     three_answers)))) \<noteq> []"
proof -
  let ?b = "generate default_model upper_ascii scripted add_py None Python (empty_disk blank_review)"
  let ?s = "generate default_model upper_ascii scripted add_py None Python (empty_disk three_answers)"
  have b: "?b = (fst ?b, fst (snd ?b), snd (snd ?b))" and s: "?s = (fst ?s, fst (snd ?s), snd (snd ?s))"
    by simp_all
  have blank_last: "strip (last (yields_of (fst (stream_pipeline default_model upper_ascii scripted
      add_py Python blank_review)))) = []"
    by (simp add: blank_review_stream blank_is_blank)
  have offered: "Yield (ascii ''# Docs'', Some (ascii ''temp/documentation_20261103_234705.md''))
      \<in> set (fst ?s)"
    by (simp add: successful_generate)
  from blank_document_never_saved [OF b, THEN conjunct2, rule_format,
      of add_py "fst (stream_pipeline default_model upper_ascii scripted add_py Python blank_review)"
        "Inr ()" "[]"]
    blank_last
  have unsaved: "files (snd (snd ?b)) = Map.empty \<and> dirs (snd (snd ?b)) = {} \<and>
      list_all (\<lambda>y. snd y = None) (yields_of (fst ?b))"
    by (simp add: pasted blank_review_stream empty_disk_remote)
  from blank_document_never_saved [OF s, THEN conjunct1] offered
  obtain code chunks r' where
    "uploaded_or_pasted add_py None (empty_disk three_answers) =
       ([], Inr code, empty_disk three_answers)"
    "stream_pipeline default_model upper_ascii scripted code Python
       (remote (empty_disk three_answers)) = (chunks, Inr (), r')"
    "strip (last (yields_of chunks)) \<noteq> []"
    by blast
  then have "strip (last (yields_of (fst (stream_pipeline default_model upper_ascii scripted add_py
      Python three_answers)))) \<noteq> []"
    by (simp add: pasted empty_disk_remote)
  with blank_last unsaved offered show ?thesis by simp
qed

subsection \<open>C10\<close>



end
